theory Spec2Isabelle
  imports Complex_Main "HOL-Library.Sublist"
begin

section \<open>Strings\<close>

text \<open>
  A Python \<open>str\<close> is modelled as a \<open>string\<close> holding its UTF-8 bytes. The string
  methods the pipeline uses (\<open>lower\<close>, \<open>strip\<close>, \<open>split\<close>, \<open>replace\<close>, \<open>in\<close>) are
  modelled on the ASCII range: the white space characters are the ten ASCII ones for which
  \<open>str.isspace\<close> holds, and \<open>lower\<close> maps \<open>A\<close>..\<open>Z\<close> to \<open>a\<close>..\<open>z\<close>. White space and
  letters beyond ASCII are outside the model.
\<close>

definition isspace :: "char \<Rightarrow> bool" where
  "isspace c = (c \<in> set [CHR 0x09, CHR 0x0A, CHR 0x0B, CHR 0x0C, CHR 0x0D,
                           CHR 0x1C, CHR 0x1D, CHR 0x1E, CHR 0x1F, CHR 0x20])"

definition lower_char :: "char \<Rightarrow> char" where
  "lower_char c =
     (case map_of (zip ''ABCDEFGHIJKLMNOPQRSTUVWXYZ'' ''abcdefghijklmnopqrstuvwxyz'') c of
        None \<Rightarrow> c
      | Some d \<Rightarrow> d)"

definition lower :: "string \<Rightarrow> string" where
  "lower s = map lower_char s"

text \<open>\<open>s.strip()\<close>: the white space at both ends goes.\<close>

definition lstrip :: "string \<Rightarrow> string" where
  "lstrip s = dropWhile isspace s"

definition rstrip :: "string \<Rightarrow> string" where
  "rstrip s = rev (dropWhile isspace (rev s))"

definition strip :: "string \<Rightarrow> string" where
  "strip s = rstrip (lstrip s)"

text \<open>\<open>s.replace("?", "")\<close>: every question mark goes.\<close>

definition replace_qmark :: "string \<Rightarrow> string" where
  "replace_qmark s = filter (\<lambda>c. c \<noteq> CHR ''?'') s"

text \<open>
  \<open>s.split()\<close> with no separator: the maximal runs of characters that are not white
  space, in order; no empty word is ever produced. \<open>split_from cur s\<close> carries the word
  read so far.
\<close>

fun split_from :: "string \<Rightarrow> string \<Rightarrow> string list" where
  "split_from cur [] = (if cur = [] then [] else [cur])"
| "split_from cur (c # cs) =
     (if isspace c then (if cur = [] then split_from [] cs else cur # split_from [] cs)
      else split_from (cur @ [c]) cs)"

definition split :: "string \<Rightarrow> string list" where
  "split s = split_from [] s"

text \<open>\<open>w in s\<close> on strings: \<open>w\<close> occurs in \<open>s\<close> as a contiguous substring.\<close>

fun contains :: "string \<Rightarrow> string \<Rightarrow> bool" where
  "contains [] w = (w = [])"
| "contains (c # cs) w = (prefix w (c # cs) \<or> contains cs w)"

section \<open>Data\<close>

text \<open>
  A match of the index's answer is a dictionary: \<open>score\<close> and \<open>metadata\<close> may be
  missing, and so may the key \<open>text\<close> inside \<open>metadata\<close> (the inner option). A score is
  a real number; the only operation on it is the comparison with the threshold.
\<close>

record match =
  score :: "real option"
  metadata :: "string option option"

text \<open>
  The module-level dictionary \<open>last_disease_query = {"text": None, "name": None}\<close>. Its
  keys are \<open>text\<close> and \<open>name\<close>; the fields carry a prefix because \<open>text\<close> is a keyword.
\<close>

record last_query =
  last_text :: "string option"
  last_name :: "string option"

datatype error =
    EncoderError | IndexError | KeyError | RequestError | HTTPStatusError nat
  | JSONError | TranslateError | DatabaseError

text \<open>The calls that leave the process, in the order they are made.\<close>

datatype call =
    Encode string
  | IndexQuery "real list" nat
  | GeminiPost string
  | Translate string string
  | DbInsert string string string

text \<open>
  The state a request runs in: the shared dictionary and the log of outside calls made so
  far.
\<close>

record world =
  last_disease_query :: last_query
  calls :: "call list"

type_synonym encoder = "string \<Rightarrow> error + real list"
type_synonym vector_index = "real list \<Rightarrow> nat \<Rightarrow> error + match list option"

definition logged :: "call \<Rightarrow> world \<Rightarrow> world" where
  "logged c w = w\<lparr>calls := calls w @ [c]\<rparr>"

section \<open>The passage retriever\<close>

text \<open>\<open>query.lower().replace("?", "").split()\<close>\<close>

definition disease_keywords :: "string \<Rightarrow> string list" where
  "disease_keywords query = split (replace_qmark (lower query))"

text \<open>\<open>any(word in para.lower() for word in disease_keywords)\<close>\<close>

definition any_keyword_in :: "string list \<Rightarrow> string \<Rightarrow> bool" where
  "any_keyword_in kws para = list_ex (\<lambda>word. contains (lower para) word) kws"

text \<open>\<open>match.get("score", 0)\<close>\<close>

definition match_score :: "match \<Rightarrow> real" where
  "match_score m = (case score m of None \<Rightarrow> 0 | Some s \<Rightarrow> s)"

text \<open>\<open>match.get("metadata", {}).get("text", "").strip()\<close> of \<open>server.py\<close>\<close>

definition match_para :: "match \<Rightarrow> string" where
  "match_para m =
     strip (case metadata m of
              None \<Rightarrow> []
            | Some md \<Rightarrow> (case md of None \<Rightarrow> [] | Some t \<Rightarrow> t))"

text \<open>
  The loop over \<open>results["matches"]\<close> of \<open>server.py\<close>. It returns the accepted paragraph,
  or None when the list is exhausted.
\<close>

fun scan_matches :: "real \<Rightarrow> string list \<Rightarrow> string option \<Rightarrow> match list \<Rightarrow> string option" where
  "scan_matches threshold kws previous_text [] = None"
| "scan_matches threshold kws previous_text (m # ms) =
     (let sc = match_score m; para = match_para m in
      if para = [] \<or> Some para = previous_text then scan_matches threshold kws previous_text ms
      else if sc \<ge> threshold \<and> any_keyword_in kws para then Some para
      else scan_matches threshold kws previous_text ms)"

text \<open>
  The body of the \<open>try\<close> block of \<open>search_query_only\<close> in \<open>server.py\<close>: Inl is an
  exception raised inside it. The dictionary is updated on acceptance only.
\<close>

definition search_body :: "encoder \<Rightarrow> vector_index \<Rightarrow> string \<Rightarrow> real \<Rightarrow> world \<Rightarrow> (error + string option) \<times> world" where
  "search_body encode index_query query threshold w =
     (let w1 = logged (Encode query) w in
      case encode query of
        Inl e \<Rightarrow> (Inl e, w1)
      | Inr query_vec \<Rightarrow>
          (let w2 = logged (IndexQuery query_vec 5) w1 in
           case index_query query_vec 5 of
             Inl e \<Rightarrow> (Inl e, w2)
           | Inr results \<Rightarrow>
               (case results of
                  None \<Rightarrow> (Inr None, w2)
                | Some [] \<Rightarrow> (Inr None, w2)
                | Some (m # ms) \<Rightarrow>
                    (case scan_matches threshold (disease_keywords query)
                            (last_text (last_disease_query w2)) (m # ms) of
                       None \<Rightarrow> (Inr None, w2)
                     | Some para \<Rightarrow>
                         (Inr (Some para),
                          w2\<lparr>last_disease_query :=
                                \<lparr>last_text = Some para, last_name = Some query\<rparr>\<rparr>)))))"

text \<open>
  \<open>search_query_only\<close> of \<open>server.py\<close>. The globals \<open>model\<close> and \<open>index\<close> are None
  when the service could not be set up; every exception of the body is caught and gives
  None.
\<close>

definition search_query_only :: "encoder option \<Rightarrow> vector_index option \<Rightarrow> string \<Rightarrow> real \<Rightarrow> world \<Rightarrow> string option \<times> world" where
  "search_query_only model index query threshold w =
     (case (model, index) of
        (Some encode, Some index_query) \<Rightarrow>
          (case search_body encode index_query query threshold w of
             (Inl e, w') \<Rightarrow> (None, w')
           | (Inr r, w') \<Rightarrow> (r, w'))
      | _ \<Rightarrow> (None, w))"

text \<open>
  The loop of \<open>shri1.py\<close>. It differs in one place: \<open>match["metadata"]\<close> raises
  KeyError when the match has no metadata.
\<close>

definition match_para_shri1 :: "match \<Rightarrow> error + string" where
  "match_para_shri1 m =
     (case metadata m of
        None \<Rightarrow> Inl KeyError
      | Some md \<Rightarrow> Inr (strip (case md of None \<Rightarrow> [] | Some t \<Rightarrow> t)))"

fun scan_matches_shri1 :: "real \<Rightarrow> string list \<Rightarrow> string option \<Rightarrow> match list \<Rightarrow> error + string option" where
  "scan_matches_shri1 threshold kws previous_text [] = Inr None"
| "scan_matches_shri1 threshold kws previous_text (m # ms) =
     (let sc = match_score m in
      case match_para_shri1 m of
        Inl e \<Rightarrow> Inl e
      | Inr para \<Rightarrow>
          if para = [] \<or> Some para = previous_text
          then scan_matches_shri1 threshold kws previous_text ms
          else if sc \<ge> threshold \<and> any_keyword_in kws para then Inr (Some para)
          else scan_matches_shri1 threshold kws previous_text ms)"

text \<open>
  \<open>search_query_only\<close> of \<open>shri1.py\<close>: the services always exist (the module does not
  load otherwise) and nothing is caught, so an exception of the encoder, of the index or of
  the loop leaves the function (Inl).
\<close>

definition search_query_only_shri1 :: "encoder \<Rightarrow> vector_index \<Rightarrow> string \<Rightarrow> real \<Rightarrow> world \<Rightarrow> (error + string option) \<times> world" where
  "search_query_only_shri1 encode index_query query threshold w =
     (let w1 = logged (Encode query) w in
      case encode query of
        Inl e \<Rightarrow> (Inl e, w1)
      | Inr query_vec \<Rightarrow>
          (let w2 = logged (IndexQuery query_vec 5) w1 in
           case index_query query_vec 5 of
             Inl e \<Rightarrow> (Inl e, w2)
           | Inr results \<Rightarrow>
               (case results of
                  None \<Rightarrow> (Inr None, w2)
                | Some [] \<Rightarrow> (Inr None, w2)
                | Some (m # ms) \<Rightarrow>
                    (case scan_matches_shri1 threshold (disease_keywords query)
                            (last_text (last_disease_query w2)) (m # ms) of
                       Inl e \<Rightarrow> (Inl e, w2)
                     | Inr None \<Rightarrow> (Inr None, w2)
                     | Inr (Some para) \<Rightarrow>
                         (Inr (Some para),
                          w2\<lparr>last_disease_query :=
                                \<lparr>last_text = Some para, last_name = Some query\<rparr>\<rparr>)))))"

section \<open>The answer generator\<close>

text \<open>
  The answer of the generation service. \<open>requests.post\<close> raises on a network error or a
  timeout (Inl); otherwise there is a status code and a body, which \<open>response.json()\<close>
  fails to parse (None) or parses to a dictionary. Each key of the path
  \<open>data["candidates"][0]["content"]["parts"][0]["text"]\<close> may be missing and each list may
  be empty. The value under \<open>text\<close>, when there is one, is a string, as the service's schema
  has it.
\<close>

record gemini_part =
  part_text :: "string option"

record gemini_content =
  parts :: "gemini_part list option"

record gemini_candidate =
  content :: "gemini_content option"

record gemini_data =
  candidates :: "gemini_candidate list option"

record response =
  status_code :: nat
  json_body :: "gemini_data option"

type_synonym http_post = "string \<Rightarrow> error + response"

text \<open>\<open>d[key]\<close> on a dictionary and \<open>xs[0]\<close> on a list.\<close>

definition item :: "'a option \<Rightarrow> error + 'a" where
  "item v = (case v of None \<Rightarrow> Inl KeyError | Some x \<Rightarrow> Inr x)"

definition first :: "'a list \<Rightarrow> error + 'a" where
  "first xs = (case xs of [] \<Rightarrow> Inl IndexError | x # _ \<Rightarrow> Inr x)"

definition and_then :: "error + 'a \<Rightarrow> ('a \<Rightarrow> error + 'b) \<Rightarrow> error + 'b" where
  "and_then r f = (case r of Inl e \<Rightarrow> Inl e | Inr x \<Rightarrow> f x)"

definition answer_text :: "gemini_data \<Rightarrow> error + string" where
  "answer_text data =
     and_then (item (candidates data)) (\<lambda>cs.
     and_then (first cs) (\<lambda>c.
     and_then (item (content c)) (\<lambda>ct.
     and_then (item (parts ct)) (\<lambda>ps.
     and_then (first ps) (\<lambda>p.
     item (part_text p))))))"

text \<open>\<open>response.raise_for_status()\<close> raises for the 4xx and 5xx codes.\<close>

definition raise_for_status :: "response \<Rightarrow> error + unit" where
  "raise_for_status r =
     (if 400 \<le> status_code r \<and> status_code r < 600 then Inl (HTTPStatusError (status_code r))
      else Inr ())"

text \<open>The four statements both files have inside the \<open>try\<close> of \<open>query_gemini\<close>.\<close>

definition gemini_request :: "http_post \<Rightarrow> string \<Rightarrow> world \<Rightarrow> (error + string) \<times> world" where
  "gemini_request requests_post prompt w =
     (let w1 = logged (GeminiPost prompt) w in
      (and_then (requests_post prompt) (\<lambda>r.
       and_then (raise_for_status r) (\<lambda>_.
       and_then (case json_body r of None \<Rightarrow> Inl JSONError | Some d \<Rightarrow> Inr d) answer_text)), w1))"

text \<open>Python's truth value of \<open>paragraph\<close>: None and the empty string are false.\<close>

definition truthy :: "string option \<Rightarrow> bool" where
  "truthy paragraph = (case paragraph of None \<Rightarrow> False | Some p \<Rightarrow> p \<noteq> [])"

definition prompt_for :: "string option \<Rightarrow> string \<Rightarrow> string" where
  "prompt_for paragraph question =
     (case paragraph of
        None \<Rightarrow> ''Answer this medical question in simple terms, within 200 words maximum:\<newline>\<newline>'' @ question
      | Some p \<Rightarrow>
          if p \<noteq> []
          then p @ ''\<newline>\<newline>Using the above text, answer this question within 200 words maximum:\<newline>\<newline>'' @ question
          else ''Answer this medical question in simple terms, within 200 words maximum:\<newline>\<newline>'' @ question)"

definition disclaimer :: string where
  "disclaimer = ''I can provide general medical information based on common knowledge. '' @
                ''If this is urgent or serious, please consult a medical professional immediately. ''"

definition reference_note :: string where
  "reference_note = ''\<newline>\<newline>(Referenced content summary applied.)''"

definition safe_answer :: "string option \<Rightarrow> string \<Rightarrow> string" where
  "safe_answer paragraph question =
     (let safe = disclaimer @ ''You asked: '' @ question in
      if truthy paragraph then safe @ reference_note else safe)"

text \<open>
  \<open>query_gemini\<close> of \<open>server.py\<close>: the service is called only when the key is not
  empty, and every exception falls through to the fallback answer.
\<close>

definition query_gemini :: "string \<Rightarrow> http_post \<Rightarrow> string option \<Rightarrow> string \<Rightarrow> world \<Rightarrow> string \<times> world" where
  "query_gemini GEMINI_API_KEY requests_post paragraph question w =
     (let prompt = prompt_for paragraph question in
      if GEMINI_API_KEY \<noteq> [] then
        (case gemini_request requests_post prompt w of
           (Inr t, w') \<Rightarrow> (t, w')
         | (Inl e, w') \<Rightarrow> (safe_answer paragraph question, w'))
      else (safe_answer paragraph question, w))"

text \<open>The sign U+26A0 in UTF-8, and the bytes that stand in its place in \<open>shri1.py\<close>.\<close>

definition warning_sign :: string where
  "warning_sign = [CHR 0xE2, CHR 0x9A, CHR 0xA0]"

definition warning_sign_shri1 :: string where
  "warning_sign_shri1 = [CHR 0xE2, CHR 0x80, CHR 0x9A, CHR 0xC3, CHR 0xB6, CHR 0xE2, CHR 0x80, CHR 0xA0]"

definition cross_sign_shri1 :: string where
  "cross_sign_shri1 = [CHR 0xE2, CHR 0x80, CHR 0x9A, CHR 0xC3, CHR 0xB9, CHR 0xC3, CHR 0xA5]"

definition unable_answer :: string where
  "unable_answer = warning_sign_shri1 @ '' Unable to get answer from Gemini.''"

text \<open>
  \<open>query_gemini\<close> of \<open>shri1.py\<close>: the request is always made and the bare \<open>except\<close>
  returns one fixed sentence.
\<close>

definition query_gemini_shri1 :: "http_post \<Rightarrow> string option \<Rightarrow> string \<Rightarrow> world \<Rightarrow> string \<times> world" where
  "query_gemini_shri1 requests_post paragraph question w =
     (let prompt = prompt_for paragraph question in
      case gemini_request requests_post prompt w of
        (Inr t, w') \<Rightarrow> (t, w')
      | (Inl e, w') \<Rightarrow> (unable_answer, w'))"

section \<open>The translation step\<close>

type_synonym translate_fn = "string \<Rightarrow> string \<Rightarrow> error + string"

text \<open>
  The translation block of \<open>chat\<close> in \<open>server.py\<close>. The global \<open>translator\<close> is None
  when the package is missing or could not be set up.
\<close>

definition translation_failed :: string where
  "translation_failed = '' '' @ warning_sign @ '' Translation failed.''"

definition translate_step :: "translate_fn option \<Rightarrow> string \<Rightarrow> string \<Rightarrow> world \<Rightarrow> string \<times> world" where
  "translate_step translator answer target_lang w =
     (case translator of
        None \<Rightarrow> (answer, w)
      | Some translate \<Rightarrow>
          if target_lang \<noteq> [] \<and> target_lang \<noteq> ''en'' then
            (let w1 = logged (Translate answer target_lang) w in
             case translate answer target_lang of
               Inr answer_trans \<Rightarrow> (answer_trans, w1)
             | Inl e \<Rightarrow> (answer @ translation_failed, w1))
          else (answer, w))"

text \<open>The translation block of \<open>chat\<close> in \<open>shri1.py\<close>: the translator always exists.\<close>

definition translation_failed_shri1 :: string where
  "translation_failed_shri1 =
     ''\<newline>\<newline>'' @ warning_sign_shri1 @ '' Translation failed. Showing English answer.''"

definition translate_step_shri1 :: "translate_fn \<Rightarrow> string \<Rightarrow> string \<Rightarrow> world \<Rightarrow> string \<times> world" where
  "translate_step_shri1 translate answer target_lang w =
     (if target_lang \<noteq> ''en'' then
        (let w1 = logged (Translate answer target_lang) w in
         case translate answer target_lang of
           Inr answer_trans \<Rightarrow> (answer_trans, w1)
         | Inl e \<Rightarrow> (answer @ translation_failed_shri1, w1))
      else (answer, w))"

section \<open>The chat route\<close>

text \<open>
  A request: the user of the session, if one is logged in, and the keys \<open>query\<close> and
  \<open>language\<close> of the JSON body, each of which may be missing.
\<close>

record request =
  session_username :: "string option"
  req_query :: "string option"
  req_language :: "string option"

datatype json_value = JString string | JBool bool

type_synonym json_object = "(string \<times> json_value) list"

text \<open>\<open>jsonify({"answer": a})\<close>\<close>

definition jsonify_answer :: "string \<Rightarrow> json_object" where
  "jsonify_answer a = [(''answer'', JString a)]"

definition please_login :: string where
  "please_login = warning_sign @ '' Please login first.''"

definition please_enter :: string where
  "please_enter = warning_sign @ '' Please enter a valid question.''"

text \<open>\<open>data.get("query", "")\<close> and \<open>data.get("language", "en")\<close>\<close>

definition get_query :: "request \<Rightarrow> string" where
  "get_query req = (case req_query req of None \<Rightarrow> [] | Some q \<Rightarrow> q)"

definition get_language :: "request \<Rightarrow> string" where
  "get_language req = (case req_language req of None \<Rightarrow> ''en'' | Some l \<Rightarrow> l)"

type_synonym db_insert_fn = "string \<Rightarrow> string \<Rightarrow> string \<Rightarrow> error + unit"

text \<open>
  The block that saves the turn: connection, INSERT and commit are one call here, and a
  failure of any of them is caught. The time stamp is left out.
\<close>

definition save_chat :: "db_insert_fn \<Rightarrow> string \<Rightarrow> string \<Rightarrow> string \<Rightarrow> world \<Rightarrow> world" where
  "save_chat db_insert username query answer w =
     (let w1 = logged (DbInsert username query answer) w in
      case db_insert username query answer of Inl e \<Rightarrow> w1 | Inr _ \<Rightarrow> w1)"

text \<open>
  \<open>chat\<close> of \<open>server.py\<close>. \<open>search_query_only\<close> is called with its default threshold
  0.75; the \<open>try\<close> around it has nothing to catch, since the function returns a value in
  every case.
\<close>

definition chat :: "encoder option \<Rightarrow> vector_index option \<Rightarrow> string \<Rightarrow> http_post \<Rightarrow> translate_fn option \<Rightarrow> db_insert_fn \<Rightarrow> request \<Rightarrow> world \<Rightarrow> json_object \<times> world" where
  "chat model index GEMINI_API_KEY requests_post translator db_insert req w =
     (case session_username req of
        None \<Rightarrow> (jsonify_answer please_login, w)
      | Some username \<Rightarrow>
          (let query = strip (get_query req);
               target_lang = get_language req
           in if query = [] then (jsonify_answer please_enter, w)
              else
                (let (para, w1) = search_query_only model index query (3 / 4) w;
                     (answer, w2) =
                        (if truthy para then query_gemini GEMINI_API_KEY requests_post para query w1
                         else query_gemini GEMINI_API_KEY requests_post None query w1);
                     (answer', w3) = translate_step translator answer target_lang w2;
                     w4 = save_chat db_insert username query answer' w3
                 in (jsonify_answer answer', w4))))"

definition please_enter_shri1 :: string where
  "please_enter_shri1 = cross_sign_shri1 @ '' Please enter a valid question.''"

definition internal_error :: string where
  "internal_error = warning_sign_shri1 @ '' An internal error occurred. Please try again.''"

text \<open>
  \<open>chat\<close> of \<open>shri1.py\<close>: no session check, the query is not stripped, nothing is
  saved, and the outer \<open>try\<close> turns an exception of the retriever into the internal-error
  answer.
\<close>

definition chat_shri1 :: "encoder \<Rightarrow> vector_index \<Rightarrow> http_post \<Rightarrow> translate_fn \<Rightarrow> request \<Rightarrow> world \<Rightarrow> json_object \<times> world" where
  "chat_shri1 encode index_query requests_post translate req w =
     (let query = get_query req;
          target_lang = get_language req
      in if query = [] then (jsonify_answer please_enter_shri1, w)
         else
           (case search_query_only_shri1 encode index_query query (3 / 4) w of
              (Inl e, w1) \<Rightarrow> (jsonify_answer internal_error, w1)
            | (Inr paragraph, w1) \<Rightarrow>
                (let (answer, w2) = query_gemini_shri1 requests_post paragraph query w1;
                     (answer', w3) = translate_step_shri1 translate answer target_lang w2
                 in (jsonify_answer answer', w3))))"

section \<open>Acceptance of a candidate\<close>

text \<open>
  The test the loop of \<open>search_query_only\<close> applies to one match: the stripped text is
  not empty and not the previous text, the score reaches the threshold, and a keyword
  occurs in the lowercased stripped text.
\<close>

definition accepts :: "real \<Rightarrow> string list \<Rightarrow> string option \<Rightarrow> match \<Rightarrow> bool" where
  "accepts threshold kws previous_text m =
     (match_para m \<noteq> [] \<and> Some (match_para m) \<noteq> previous_text \<and>
      match_score m \<ge> threshold \<and> any_keyword_in kws (match_para m))"

text \<open>
  The text of a match before stripping, and the test as the specification words it: the
  score is at least the threshold and a keyword of the question occurs in the lowercased
  text. It says nothing of the previous text.
\<close>

definition raw_text :: "match \<Rightarrow> string" where
  "raw_text m = (case metadata m of
                   None \<Rightarrow> []
                 | Some md \<Rightarrow> (case md of None \<Rightarrow> [] | Some t \<Rightarrow> t))"

definition spec_qualifies :: "real \<Rightarrow> string \<Rightarrow> match \<Rightarrow> bool" where
  "spec_qualifies threshold question m =
     (match_score m \<ge> threshold \<and> any_keyword_in (disease_keywords question) (raw_text m))"

section \<open>Sample services and inputs\<close>

definition initial_world :: world where
  "initial_world = \<lparr>last_disease_query = \<lparr>last_text = None, last_name = None\<rparr>, calls = []\<rparr>"

text \<open>The state after \<open>Flu?\<close> was answered from the first sample match.\<close>

definition after_flu_world :: world where
  "after_flu_world =
     \<lparr>last_disease_query = \<lparr>last_text = Some ''Flu is viral.'', last_name = Some ''Flu?''\<rparr>,
      calls = [Encode ''Flu?'', IndexQuery [1 / 2] 5]\<rparr>"

definition encode_ok :: encoder where
  "encode_ok q = Inr [1 / 2]"

definition encode_down :: encoder where
  "encode_down q = Inl EncoderError"

definition index_of :: "match list \<Rightarrow> vector_index" where
  "index_of ms v k = Inr (Some (take k ms))"

definition index_down :: vector_index where
  "index_down v k = Inl IndexError"

definition flu_match :: match where
  "flu_match = \<lparr>score = Some (9 / 10), metadata = Some (Some ''Flu is viral.'')\<rparr>"

definition rest_match :: match where
  "rest_match = \<lparr>score = Some (8 / 10), metadata = Some (Some '' Rest helps flu. '')\<rparr>"

definition post_text :: "string \<Rightarrow> http_post" where
  "post_text t prompt =
     Inr \<lparr>status_code = 200,
          json_body = Some \<lparr>candidates =
            Some [\<lparr>content = Some \<lparr>parts = Some [\<lparr>part_text = Some t\<rparr>]\<rparr>\<rparr>]\<rparr>\<rparr>"

definition post_500 :: http_post where
  "post_500 prompt = Inr \<lparr>status_code = 500, json_body = None\<rparr>"

definition post_timeout :: http_post where
  "post_timeout prompt = Inl RequestError"

definition translate_down :: translate_fn where
  "translate_down t l = Inl TranslateError"

definition translate_tag :: translate_fn where
  "translate_tag t l = Inr (l @ '': '' @ t)"

definition db_ok :: db_insert_fn where
  "db_ok u q a = Inr ()"

section \<open>Properties of the strings and of the loop\<close>

lemma contains_iff_sublist: "contains s w \<longleftrightarrow> sublist w s"
  by (induction s) (auto simp: sublist_Cons_right)

lemma contains_middle: "contains (a @ w @ b) w"
  by (simp add: contains_iff_sublist)

lemma scan_matches_not_previous:
  "scan_matches threshold kws previous_text ms = Some para \<Longrightarrow>
     Some para \<noteq> previous_text \<and> para \<noteq> []"
  by (induction ms) (auto simp: Let_def split: if_splits)

lemma scan_matches_shri1_not_previous:
  "scan_matches_shri1 threshold kws previous_text ms = Inr (Some para) \<Longrightarrow>
     Some para \<noteq> previous_text \<and> para \<noteq> []"
  by (induction ms) (auto simp: Let_def split: if_splits sum.splits)

lemma scan_matches_no_keywords: "scan_matches threshold [] previous_text ms = None"
  by (induction ms) (auto simp: Let_def any_keyword_in_def)

lemma scan_matches_shri1_no_keywords:
  "scan_matches_shri1 threshold [] previous_text ms \<noteq> Inr (Some para)"
  by (induction ms) (auto simp: Let_def any_keyword_in_def split: sum.splits)

lemma scan_matches_shri1_no_keywords_metadata:
  "list_all (\<lambda>m. metadata m \<noteq> None) ms \<Longrightarrow>
     scan_matches_shri1 threshold [] previous_text ms = Inr None"
  by (induction ms)
     (auto simp: Let_def any_keyword_in_def match_para_shri1_def split: sum.splits option.splits)

lemma scan_matches_find:
  "scan_matches threshold kws previous_text ms =
     map_option match_para (find (accepts threshold kws previous_text) ms)"
  by (induction ms) (auto simp: Let_def accepts_def)

lemma search_body_cases:
  assumes "search_body encode index_query query threshold w = (r, w')"
  shows "(case r of
            Inr (Some para) \<Rightarrow> Some para \<noteq> last_text (last_disease_query w) \<and>
               last_disease_query w' = \<lparr>last_text = Some para, last_name = Some query\<rparr>
          | _ \<Rightarrow> last_disease_query w' = last_disease_query w)"
  using assms scan_matches_not_previous
  unfolding search_body_def logged_def Let_def
  by (fastforce simp del: scan_matches.simps split: sum.splits option.splits list.splits)

lemma search_query_only_shri1_cases:
  assumes "search_query_only_shri1 encode index_query query threshold w = (r, w')"
  shows "(case r of
            Inr (Some para) \<Rightarrow> Some para \<noteq> last_text (last_disease_query w) \<and>
               last_disease_query w' = \<lparr>last_text = Some para, last_name = Some query\<rparr>
          | _ \<Rightarrow> last_disease_query w' = last_disease_query w)"
  using assms scan_matches_shri1_not_previous
  unfolding search_query_only_shri1_def logged_def Let_def
  by (fastforce simp del: scan_matches_shri1.simps split: sum.splits option.splits list.splits)

lemma search_query_only_cases:
  assumes "search_query_only model index query threshold w = (r, w')"
  shows "(case r of
            Some para \<Rightarrow> Some para \<noteq> last_text (last_disease_query w) \<and>
               last_disease_query w' = \<lparr>last_text = Some para, last_name = Some query\<rparr>
          | None \<Rightarrow> last_disease_query w' = last_disease_query w)"
proof (cases model)
  case None
  with assms show ?thesis by (simp add: search_query_only_def)
next
  case (Some encode)
  note m = this
  show ?thesis
  proof (cases index)
    case None
    with assms m show ?thesis by (simp add: search_query_only_def)
  next
    case (Some index_query)
    obtain rb wb where b: "search_body encode index_query query threshold w = (rb, wb)"
      by (cases "search_body encode index_query query threshold w")
    from search_body_cases [OF b] assms m Some b show ?thesis
      by (auto simp: search_query_only_def split: sum.splits option.splits)
  qed
qed

lemma scan_matches_skips_previous:
  "scan_matches threshold kws (Some (match_para m)) (m # ms) =
   scan_matches threshold kws (Some (match_para m)) ms"
  by (simp add: Let_def)

section \<open>The sample inputs, evaluated\<close>

lemma kw_flu: "disease_keywords ''Flu?'' = [''flu'']"
  by (simp add: disease_keywords_def split_def lower_def lower_char_def replace_qmark_def
      isspace_def)

lemma para_flu: "match_para flu_match = ''Flu is viral.''"
  by (simp add: match_para_def flu_match_def strip_def lstrip_def rstrip_def isspace_def)

lemma para_rest: "match_para rest_match = ''Rest helps flu.''"
  by (simp add: match_para_def rest_match_def strip_def lstrip_def rstrip_def isspace_def)

lemma para_flu_shri1: "match_para_shri1 flu_match = Inr ''Flu is viral.''"
  by (simp add: match_para_shri1_def flu_match_def strip_def lstrip_def rstrip_def isspace_def)

lemma para_rest_shri1: "match_para_shri1 rest_match = Inr ''Rest helps flu.''"
  by (simp add: match_para_shri1_def rest_match_def strip_def lstrip_def rstrip_def isspace_def)

lemma score_flu: "match_score flu_match = 9 / 10"
  by (simp add: match_score_def flu_match_def)

lemma score_rest: "match_score rest_match = 8 / 10"
  by (simp add: match_score_def rest_match_def)

lemma in_flu: "any_keyword_in [''flu''] ''Flu is viral.''"
  by (simp add: any_keyword_in_def lower_def lower_char_def)

lemma in_rest: "any_keyword_in [''flu''] ''Rest helps flu.''"
  by (simp add: any_keyword_in_def lower_def lower_char_def)

lemma scan_fresh:
  "scan_matches (3 / 4) [''flu''] None [flu_match, rest_match] = Some ''Flu is viral.''"
  by (simp add: Let_def para_flu score_flu in_flu)

lemma scan_seen:
  "scan_matches (3 / 4) [''flu''] (Some ''Flu is viral.'') [flu_match, rest_match] =
     Some ''Rest helps flu.''"
  by (simp add: Let_def para_flu para_rest score_rest in_rest)

lemma scan_fresh_shri1:
  "scan_matches_shri1 (3 / 4) [''flu''] None [flu_match, rest_match] = Inr (Some ''Flu is viral.'')"
  by (simp add: Let_def para_flu_shri1 score_flu in_flu)

lemma scan_seen_shri1:
  "scan_matches_shri1 (3 / 4) [''flu''] (Some ''Flu is viral.'') [flu_match, rest_match] =
     Inr (Some ''Rest helps flu.'')"
  by (simp add: Let_def para_flu_shri1 para_rest_shri1 score_rest in_rest)

lemma first_call:
  "search_query_only (Some encode_ok) (Some (index_of [flu_match, rest_match])) ''Flu?'' (3 / 4)
     initial_world = (Some ''Flu is viral.'', after_flu_world)"
  by (simp add: search_query_only_def search_body_def encode_ok_def index_of_def logged_def
      initial_world_def after_flu_world_def kw_flu scan_fresh Let_def del: scan_matches.simps)

lemma second_call:
  "fst (search_query_only (Some encode_ok) (Some (index_of [flu_match, rest_match])) ''Flu?''
     (3 / 4) after_flu_world) = Some ''Rest helps flu.''"
  by (simp add: search_query_only_def search_body_def encode_ok_def index_of_def logged_def
      after_flu_world_def kw_flu scan_seen Let_def del: scan_matches.simps)

lemma first_call_shri1:
  "search_query_only_shri1 encode_ok (index_of [flu_match, rest_match]) ''Flu?'' (3 / 4)
     initial_world = (Inr (Some ''Flu is viral.''), after_flu_world)"
  by (simp add: search_query_only_shri1_def encode_ok_def index_of_def logged_def
      initial_world_def after_flu_world_def kw_flu scan_fresh_shri1 Let_def
      del: scan_matches_shri1.simps)

lemma second_call_shri1:
  "fst (search_query_only_shri1 encode_ok (index_of [flu_match, rest_match]) ''Flu?'' (3 / 4)
     after_flu_world) = Inr (Some ''Rest helps flu.'')"
  by (simp add: search_query_only_shri1_def encode_ok_def index_of_def logged_def
      after_flu_world_def kw_flu scan_seen_shri1 Let_def del: scan_matches_shri1.simps)

lemma no_match_call:
  "search_query_only (Some encode_ok) (Some (index_of [])) ''Flu?'' (3 / 4) after_flu_world =
     (None, logged (IndexQuery [1 / 2] 5) (logged (Encode ''Flu?'') after_flu_world))"
  by (simp add: search_query_only_def search_body_def encode_ok_def index_of_def Let_def)

lemma encoder_down_call_shri1:
  "search_query_only_shri1 encode_down (index_of [flu_match]) ''Flu?'' (3 / 4) after_flu_world =
     (Inl EncoderError, logged (Encode ''Flu?'') after_flu_world)"
  by (simp add: search_query_only_shri1_def encode_down_def Let_def)

section \<open>Repeat suppression\<close>

lemma scan_matches_shri1_eq:
  "list_all (\<lambda>m. metadata m \<noteq> None) ms \<Longrightarrow>
     scan_matches_shri1 threshold kws previous_text ms =
       Inr (scan_matches threshold kws previous_text ms)"
  by (induction ms)
     (auto simp: Let_def match_para_shri1_def match_para_def split: option.splits)

lemma scan_matches_shri1_skips_previous:
  "match_para_shri1 m = Inr para \<Longrightarrow>
     scan_matches_shri1 threshold kws (Some para) (m # ms) =
     scan_matches_shri1 threshold kws (Some para) ms"
  by (simp add: Let_def)

lemma find_skip: "\<not> P m \<Longrightarrow> find P (pre @ m # post) = find P (pre @ post)"
  by (induction pre) auto

lemma accepts_previous: "\<not> accepts threshold kws (Some (match_para m)) m"
  by (simp add: accepts_def)

lemma find_accepts_skip:
  "find (accepts threshold kws (Some (match_para m))) (pre @ m # post) =
   find (accepts threshold kws (Some (match_para m))) (pre @ post)"
  by (rule find_skip) (rule accepts_previous)

text \<open>
  What \<open>search_query_only\<close> computes when the encoder and the index answer: the first
  match of the list that \<open>accepts\<close> holds for decides the result and the new dictionary.
\<close>

lemma search_body_find:
  assumes "encode query = Inr v" and "index_query v 5 = Inr (Some ms)"
  shows "search_body encode index_query query threshold w =
     (case find (accepts threshold (disease_keywords query) (last_text (last_disease_query w))) ms of
        None \<Rightarrow> (Inr None, logged (IndexQuery v 5) (logged (Encode query) w))
      | Some m \<Rightarrow>
          (Inr (Some (match_para m)),
           (logged (IndexQuery v 5) (logged (Encode query) w))
             \<lparr>last_disease_query := \<lparr>last_text = Some (match_para m), last_name = Some query\<rparr>\<rparr>))"
  using assms
  by (cases ms)
     (simp_all add: search_body_def Let_def logged_def scan_matches_find
        del: scan_matches.simps split: option.splits)

lemma search_query_only_shri1_eq_body:
  assumes "encode query = Inr v" and "index_query v 5 = Inr (Some ms)"
    and "list_all (\<lambda>m. metadata m \<noteq> None) ms"
  shows "search_query_only_shri1 encode index_query query threshold w =
           search_body encode index_query query threshold w"
proof -
  have s: "scan_matches_shri1 threshold (disease_keywords query) p ms =
             Inr (scan_matches threshold (disease_keywords query) p ms)" for p
    using assms(3) by (rule scan_matches_shri1_eq)
  show ?thesis
    using assms(1,2) s
    by (cases ms)
       (simp_all add: search_query_only_shri1_def search_body_def Let_def
          del: scan_matches.simps scan_matches_shri1.simps split: option.splits)
qed

lemma search_query_only_skips_previous:
  assumes "encode query = Inr v" and "index_query v 5 = Inr (Some (pre @ m # post))"
    and "last_text (last_disease_query w) = Some (match_para m)"
  shows "fst (search_query_only (Some encode) (Some index_query) query threshold w) =
           map_option match_para
             (find (accepts threshold (disease_keywords query) (Some (match_para m))) (pre @ post))"
proof -
  have b: "search_body encode index_query query threshold w =
     (case find (accepts threshold (disease_keywords query) (last_text (last_disease_query w)))
             (pre @ m # post) of
        None \<Rightarrow> (Inr None, logged (IndexQuery v 5) (logged (Encode query) w))
      | Some m \<Rightarrow>
          (Inr (Some (match_para m)),
           (logged (IndexQuery v 5) (logged (Encode query) w))
             \<lparr>last_disease_query := \<lparr>last_text = Some (match_para m), last_name = Some query\<rparr>\<rparr>))"
    by (rule search_body_find) (fact assms)+
  show ?thesis
    by (simp add: search_query_only_def b assms(3) find_accepts_skip
        split: option.splits)
qed

lemma search_query_only_shri1_skips_previous:
  assumes "encode query = Inr v" and "index_query v 5 = Inr (Some (pre @ m # post))"
    and "last_text (last_disease_query w) = Some (match_para m)"
    and "list_all (\<lambda>m. metadata m \<noteq> None) (pre @ m # post)"
  shows "fst (search_query_only_shri1 encode index_query query threshold w) =
           Inr (map_option match_para
             (find (accepts threshold (disease_keywords query) (Some (match_para m))) (pre @ post)))"
proof -
  have a: "search_query_only_shri1 encode index_query query threshold w =
             search_body encode index_query query threshold w"
    by (rule search_query_only_shri1_eq_body) (fact assms)+
  have b: "search_body encode index_query query threshold w =
     (case find (accepts threshold (disease_keywords query) (last_text (last_disease_query w)))
             (pre @ m # post) of
        None \<Rightarrow> (Inr None, logged (IndexQuery v 5) (logged (Encode query) w))
      | Some m \<Rightarrow>
          (Inr (Some (match_para m)),
           (logged (IndexQuery v 5) (logged (Encode query) w))
             \<lparr>last_disease_query := \<lparr>last_text = Some (match_para m), last_name = Some query\<rparr>\<rparr>))"
    by (rule search_body_find) (fact assms)+
  show ?thesis
    by (simp add: a b assms(3) find_accepts_skip split: option.splits)
qed

lemma accepts_rest: "accepts (3 / 4) [''flu''] (Some ''Flu is viral.'') rest_match"
  by (simp add: accepts_def para_rest score_rest in_rest)

text \<open>
  C2. A passage that \<open>search_query_only\<close> returns is never the text the dictionary held
  before the call, and it is the text the dictionary holds after it; so the next call,
  whatever its question and whatever the index answers, does not return that passage again.
  The retriever skips the candidate and falls through: when a match of the list, at any
  position, carries the text the dictionary holds, the call returns what it would return
  without that match, namely the first accepted match of the rest of the list, or None when
  there is none. This holds for the function of \<open>server.py\<close> and for that of \<open>shri1.py\<close>
  (there for matches that carry metadata; a match without metadata raises KeyError).
\<close>

theorem sequential_retrievals_differ:
  "(search_query_only model1 index1 query1 threshold1 w = (Some para, w1) \<longrightarrow>
      last_text (last_disease_query w) \<noteq> Some para \<and>
      last_text (last_disease_query w1) = Some para \<and>
      fst (search_query_only model2 index2 query2 threshold2 w1) \<noteq> Some para) \<and>
   (search_query_only_shri1 encode1 index_query1 query1 threshold1 v = (Inr (Some para), v1) \<longrightarrow>
      last_text (last_disease_query v) \<noteq> Some para \<and>
      last_text (last_disease_query v1) = Some para \<and>
      fst (search_query_only_shri1 encode2 index_query2 query2 threshold2 v1) \<noteq> Inr (Some para)) \<and>
   (encode query = Inr vec \<and> index_query vec 5 = Inr (Some (pre @ m # post)) \<and>
    last_text (last_disease_query u) = Some (match_para m) \<longrightarrow>
      fst (search_query_only (Some encode) (Some index_query) query threshold u) =
        map_option match_para
          (find (accepts threshold (disease_keywords query) (Some (match_para m))) (pre @ post)) \<and>
      (list_all (\<lambda>m. metadata m \<noteq> None) (pre @ m # post) \<longrightarrow>
         fst (search_query_only_shri1 encode index_query query threshold u) =
           Inr (map_option match_para
             (find (accepts threshold (disease_keywords query) (Some (match_para m)))
                (pre @ post)))))"
proof (intro conjI impI)
  assume a: "search_query_only model1 index1 query1 threshold1 w = (Some para, w1)"
  from search_query_only_cases [OF a]
  show "last_text (last_disease_query w) \<noteq> Some para" by auto
  from search_query_only_cases [OF a]
  show l: "last_text (last_disease_query w1) = Some para" by simp
  obtain r2 w2 where b: "search_query_only model2 index2 query2 threshold2 w1 = (r2, w2)"
    by (cases "search_query_only model2 index2 query2 threshold2 w1")
  from search_query_only_cases [OF b] l b
  show "fst (search_query_only model2 index2 query2 threshold2 w1) \<noteq> Some para"
    by (auto split: option.splits)
next
  assume a: "search_query_only_shri1 encode1 index_query1 query1 threshold1 v = (Inr (Some para), v1)"
  from search_query_only_shri1_cases [OF a]
  show "last_text (last_disease_query v) \<noteq> Some para" by auto
  from search_query_only_shri1_cases [OF a]
  show l: "last_text (last_disease_query v1) = Some para" by simp
  obtain r2 w2 where b: "search_query_only_shri1 encode2 index_query2 query2 threshold2 v1 = (r2, w2)"
    by (cases "search_query_only_shri1 encode2 index_query2 query2 threshold2 v1")
  from search_query_only_shri1_cases [OF b] l b
  show "fst (search_query_only_shri1 encode2 index_query2 query2 threshold2 v1) \<noteq> Inr (Some para)"
    by (auto split: option.splits sum.splits)
next
  assume a: "encode query = Inr vec \<and> index_query vec 5 = Inr (Some (pre @ m # post)) \<and>
    last_text (last_disease_query u) = Some (match_para m)"
  then show "fst (search_query_only (Some encode) (Some index_query) query threshold u) =
        map_option match_para
          (find (accepts threshold (disease_keywords query) (Some (match_para m))) (pre @ post))"
    using search_query_only_skips_previous by blast
  assume "list_all (\<lambda>m. metadata m \<noteq> None) (pre @ m # post)"
  with a show "fst (search_query_only_shri1 encode index_query query threshold u) =
           Inr (map_option match_para
             (find (accepts threshold (disease_keywords query) (Some (match_para m)))
                (pre @ post)))"
    using search_query_only_shri1_skips_previous by blast
qed

theorem sequential_retrievals_differ_witness:
  "search_query_only (Some encode_ok) (Some (index_of [flu_match, rest_match])) ''Flu?'' (3 / 4)
     initial_world = (Some ''Flu is viral.'', after_flu_world) \<and>
   fst (search_query_only (Some encode_ok) (Some (index_of [flu_match, rest_match])) ''Flu?''
     (3 / 4) after_flu_world) \<noteq> Some ''Flu is viral.'' \<and>
   search_query_only_shri1 encode_ok (index_of [flu_match, rest_match]) ''Flu?'' (3 / 4)
     initial_world = (Inr (Some ''Flu is viral.''), after_flu_world) \<and>
   fst (search_query_only_shri1 encode_ok (index_of [flu_match, rest_match]) ''Flu?'' (3 / 4)
     after_flu_world) \<noteq> Inr (Some ''Flu is viral.'') \<and>
   encode_ok ''Flu?'' = Inr [1 / 2] \<and>
   index_of [flu_match, rest_match] [1 / 2] 5 = Inr (Some ([] @ flu_match # [rest_match])) \<and>
   last_text (last_disease_query after_flu_world) = Some (match_para flu_match) \<and>
   list_all (\<lambda>m. metadata m \<noteq> None) ([] @ flu_match # [rest_match]) \<and>
   fst (search_query_only (Some encode_ok) (Some (index_of [flu_match, rest_match])) ''Flu?''
     (3 / 4) after_flu_world) = Some ''Rest helps flu.'' \<and>
   fst (search_query_only_shri1 encode_ok (index_of [flu_match, rest_match]) ''Flu?'' (3 / 4)
     after_flu_world) = Inr (Some ''Rest helps flu.'')"
proof -
  have e: "encode_ok ''Flu?'' = Inr [1 / 2]"
    by (simp add: encode_ok_def)
  have i: "index_of [flu_match, rest_match] [1 / 2] 5 = Inr (Some ([] @ flu_match # [rest_match]))"
    by (simp add: index_of_def)
  have l: "last_text (last_disease_query after_flu_world) = Some (match_para flu_match)"
    by (simp add: after_flu_world_def para_flu)
  have md: "list_all (\<lambda>m. metadata m \<noteq> None) ([] @ flu_match # [rest_match])"
    by (simp add: flu_match_def rest_match_def)
  have f: "map_option match_para
             (find (accepts (3 / 4) (disease_keywords ''Flu?'') (Some (match_para flu_match)))
                ([] @ [rest_match])) = Some ''Rest helps flu.''"
    by (simp add: kw_flu para_flu accepts_rest para_rest)
  from sequential_retrievals_differ
    [where ?model1.0 = "Some encode_ok" and ?index1.0 = "Some (index_of [flu_match, rest_match])"
       and ?query1.0 = "''Flu?''" and ?threshold1.0 = "3 / 4" and w = initial_world
       and para = "''Flu is viral.''" and ?w1.0 = after_flu_world
       and ?model2.0 = "Some encode_ok" and ?index2.0 = "Some (index_of [flu_match, rest_match])"
       and ?query2.0 = "''Flu?''" and ?threshold2.0 = "3 / 4"
       and ?encode1.0 = encode_ok and ?index_query1.0 = "index_of [flu_match, rest_match]"
       and v = initial_world and ?v1.0 = after_flu_world
       and ?encode2.0 = encode_ok and ?index_query2.0 = "index_of [flu_match, rest_match]"
       and encode = encode_ok and query = "''Flu?''" and vec = "[1 / 2]"
       and index_query = "index_of [flu_match, rest_match]" and pre = "[]" and m = flu_match
       and post = "[rest_match]" and u = after_flu_world and threshold = "3 / 4"]
  have T: "(search_query_only (Some encode_ok) (Some (index_of [flu_match, rest_match])) ''Flu?''
               (3 / 4) initial_world = (Some ''Flu is viral.'', after_flu_world) \<longrightarrow>
             last_text (last_disease_query initial_world) \<noteq> Some ''Flu is viral.'' \<and>
             last_text (last_disease_query after_flu_world) = Some ''Flu is viral.'' \<and>
             fst (search_query_only (Some encode_ok) (Some (index_of [flu_match, rest_match]))
                    ''Flu?'' (3 / 4) after_flu_world) \<noteq> Some ''Flu is viral.'') \<and>
            (search_query_only_shri1 encode_ok (index_of [flu_match, rest_match]) ''Flu?'' (3 / 4)
               initial_world = (Inr (Some ''Flu is viral.''), after_flu_world) \<longrightarrow>
             last_text (last_disease_query initial_world) \<noteq> Some ''Flu is viral.'' \<and>
             last_text (last_disease_query after_flu_world) = Some ''Flu is viral.'' \<and>
             fst (search_query_only_shri1 encode_ok (index_of [flu_match, rest_match]) ''Flu?''
                    (3 / 4) after_flu_world) \<noteq> Inr (Some ''Flu is viral.'')) \<and>
            (encode_ok ''Flu?'' = Inr [1 / 2] \<and>
             index_of [flu_match, rest_match] [1 / 2] 5 = Inr (Some ([] @ flu_match # [rest_match])) \<and>
             last_text (last_disease_query after_flu_world) = Some (match_para flu_match) \<longrightarrow>
             fst (search_query_only (Some encode_ok) (Some (index_of [flu_match, rest_match]))
                    ''Flu?'' (3 / 4) after_flu_world) =
               map_option match_para
                 (find (accepts (3 / 4) (disease_keywords ''Flu?'') (Some (match_para flu_match)))
                    ([] @ [rest_match])) \<and>
             (list_all (\<lambda>m. metadata m \<noteq> None) ([] @ flu_match # [rest_match]) \<longrightarrow>
              fst (search_query_only_shri1 encode_ok (index_of [flu_match, rest_match]) ''Flu?''
                     (3 / 4) after_flu_world) =
                Inr (map_option match_para
                  (find (accepts (3 / 4) (disease_keywords ''Flu?'') (Some (match_para flu_match)))
                     ([] @ [rest_match])))))"
    .
  from T first_call have c1:
    "fst (search_query_only (Some encode_ok) (Some (index_of [flu_match, rest_match])) ''Flu?''
       (3 / 4) after_flu_world) \<noteq> Some ''Flu is viral.''"
    by blast
  from T first_call_shri1 have c2:
    "fst (search_query_only_shri1 encode_ok (index_of [flu_match, rest_match]) ''Flu?'' (3 / 4)
       after_flu_world) \<noteq> Inr (Some ''Flu is viral.'')"
    by blast
  from T e i l have c3:
    "fst (search_query_only (Some encode_ok) (Some (index_of [flu_match, rest_match])) ''Flu?''
       (3 / 4) after_flu_world) =
     map_option match_para
       (find (accepts (3 / 4) (disease_keywords ''Flu?'') (Some (match_para flu_match)))
          ([] @ [rest_match]))"
    by blast
  from T e i l md have c4:
    "fst (search_query_only_shri1 encode_ok (index_of [flu_match, rest_match]) ''Flu?'' (3 / 4)
       after_flu_world) =
     Inr (map_option match_para
       (find (accepts (3 / 4) (disease_keywords ''Flu?'') (Some (match_para flu_match)))
          ([] @ [rest_match])))"
    by blast
  from c3 have c3': "fst (search_query_only (Some encode_ok)
       (Some (index_of [flu_match, rest_match])) ''Flu?'' (3 / 4) after_flu_world) =
       Some ''Rest helps flu.''"
    by (simp only: f)
  from c4 have c4': "fst (search_query_only_shri1 encode_ok (index_of [flu_match, rest_match])
       ''Flu?'' (3 / 4) after_flu_world) = Inr (Some ''Rest helps flu.'')"
    by (simp only: f)
  from first_call c1 first_call_shri1 c2 e i l md c3' c4' show ?thesis
    by (intro conjI)
qed

section \<open>The frame of the retriever\<close>

text \<open>
  C10. When \<open>search_query_only\<close> returns None, the dictionary \<open>last_disease_query\<close> (both
  fields) is what it was before the call. In \<open>shri1.py\<close> this also holds when the call ends
  in an exception. The dictionary changes only when a passage is returned.
\<close>

theorem null_result_keeps_state:
  "(search_query_only model index query threshold w = (None, w') \<longrightarrow>
      last_disease_query w' = last_disease_query w) \<and>
   (search_query_only_shri1 encode index_query query1 threshold1 v = (r, v') \<longrightarrow>
      (r = Inr None \<or> r = Inl e) \<longrightarrow> last_disease_query v' = last_disease_query v)"
proof (intro conjI impI)
  assume a: "search_query_only model index query threshold w = (None, w')"
  from search_query_only_cases [OF a] show "last_disease_query w' = last_disease_query w" by simp
next
  assume a: "search_query_only_shri1 encode index_query query1 threshold1 v = (r, v')"
    and b: "r = Inr None \<or> r = Inl e"
  from search_query_only_shri1_cases [OF a] b show "last_disease_query v' = last_disease_query v"
    by auto
qed

theorem null_result_keeps_state_witness:
  "search_query_only (Some encode_ok) (Some (index_of [])) ''Flu?'' (3 / 4) after_flu_world =
     (None, logged (IndexQuery [1 / 2] 5) (logged (Encode ''Flu?'') after_flu_world)) \<and>
   last_disease_query (logged (IndexQuery [1 / 2] 5) (logged (Encode ''Flu?'') after_flu_world)) =
     last_disease_query after_flu_world \<and>
   search_query_only_shri1 encode_down (index_of [flu_match]) ''Flu?'' (3 / 4) after_flu_world =
     (Inl EncoderError, logged (Encode ''Flu?'') after_flu_world) \<and>
   last_disease_query (logged (Encode ''Flu?'') after_flu_world) =
     last_disease_query after_flu_world"
  using null_result_keeps_state
    [where model = "Some encode_ok" and index = "Some (index_of [])" and query = "''Flu?''"
       and threshold = "3 / 4" and w = after_flu_world
       and w' = "logged (IndexQuery [1 / 2] 5) (logged (Encode ''Flu?'') after_flu_world)"
       and encode = encode_down and index_query = "index_of [flu_match]"
       and ?query1.0 = "''Flu?''" and ?threshold1.0 = "3 / 4" and v = after_flu_world
       and r = "Inl EncoderError" and v' = "logged (Encode ''Flu?'') after_flu_world"
       and e = EncoderError]
    no_match_call encoder_down_call_shri1
  by simp

section \<open>Questions without keywords\<close>

lemma split_from_empty_iff: "split_from cur s = [] \<longleftrightarrow> cur = [] \<and> list_all isspace s"
  by (induction s arbitrary: cur) auto

lemma search_query_only_no_keywords:
  "disease_keywords query = [] \<Longrightarrow> fst (search_query_only model index query threshold w) = None"
  by (simp add: search_query_only_def search_body_def Let_def scan_matches_no_keywords
      del: scan_matches.simps split: option.splits sum.splits list.splits)

lemma search_query_only_shri1_no_keywords:
  "disease_keywords query = [] \<Longrightarrow>
     fst (search_query_only_shri1 encode index_query query threshold w) \<noteq> Inr (Some para)"
  using scan_matches_shri1_no_keywords
  by (simp add: search_query_only_shri1_def Let_def
      del: scan_matches_shri1.simps split: option.splits sum.splits list.splits)

lemma search_query_only_shri1_no_keywords_metadata:
  assumes "disease_keywords query = []" and "encode query = Inr v"
    and "index_query v 5 = Inr (Some ms)" and "list_all (\<lambda>m. metadata m \<noteq> None) ms"
  shows "fst (search_query_only_shri1 encode index_query query threshold w) = Inr None"
proof -
  have s: "scan_matches_shri1 threshold [] (last_text (last_disease_query w)) ms = Inr None"
    using assms(4) by (rule scan_matches_shri1_no_keywords_metadata)
  show ?thesis
    using assms(1-3) s
    by (cases ms)
       (simp_all add: search_query_only_shri1_def Let_def logged_def del: scan_matches_shri1.simps)
qed

text \<open>
  C9. For a question whose keyword list is empty, \<open>search_query_only\<close> of \<open>server.py\<close>
  returns None whatever the index answers. That of \<open>shri1.py\<close> never returns a passage
  either, and returns None whenever the encoder and the index answer and every match
  carries metadata (otherwise it ends in the exception of the failing step).
\<close>

theorem no_keywords_no_passage:
  "disease_keywords query = [] \<longrightarrow>
     fst (search_query_only model index query threshold w) = None \<and>
     fst (search_query_only_shri1 encode index_query query threshold w) \<noteq> Inr (Some para) \<and>
     (encode query = Inr v \<and> index_query v 5 = Inr (Some ms) \<and>
      list_all (\<lambda>m. metadata m \<noteq> None) ms \<longrightarrow>
        fst (search_query_only_shri1 encode index_query query threshold w) = Inr None)"
  using search_query_only_no_keywords search_query_only_shri1_no_keywords
    search_query_only_shri1_no_keywords_metadata
  by blast

theorem no_keywords_no_passage_witness:
  "disease_keywords ''? ?'' = [] \<and>
   encode_ok ''? ?'' = Inr [1 / 2] \<and>
   index_of [flu_match] [1 / 2] 5 = Inr (Some [flu_match]) \<and>
   list_all (\<lambda>m. metadata m \<noteq> None) [flu_match] \<and>
   fst (search_query_only (Some encode_ok) (Some (index_of [flu_match])) ''? ?'' (3 / 4)
          initial_world) = None \<and>
   fst (search_query_only_shri1 encode_ok (index_of [flu_match]) ''? ?'' (3 / 4) initial_world) =
     Inr None"
proof -
  have k: "disease_keywords ''? ?'' = []"
    by (simp add: disease_keywords_def split_def lower_def lower_char_def replace_qmark_def
        isspace_def)
  have e: "encode_ok ''? ?'' = Inr [1 / 2]"
    by (simp add: encode_ok_def)
  have i: "index_of [flu_match] [1 / 2] 5 = Inr (Some [flu_match])"
    by (simp add: index_of_def)
  have m: "list_all (\<lambda>m. metadata m \<noteq> None) [flu_match]"
    by (simp add: flu_match_def)
  from no_keywords_no_passage
    [where query = "''? ?''" and model = "Some encode_ok" and index = "Some (index_of [flu_match])"
       and threshold = "3 / 4" and w = initial_world and encode = encode_ok
       and index_query = "index_of [flu_match]" and v = "[1 / 2]" and ms = "[flu_match]"]
    k e i m
  show ?thesis by blast
qed

section \<open>Unavailable services\<close>

lemma search_query_only_unavailable:
  "model = None \<or> index = None \<or>
     (model = Some encode \<and> index = Some index_query \<and>
        (encode query = Inl e \<or>
         (encode query = Inr v \<and>
            (index_query v 5 = Inl e \<or> index_query v 5 = Inr None \<or>
             index_query v 5 = Inr (Some []))))) \<Longrightarrow>
   fst (search_query_only model index query threshold w) = None"
  by (auto simp: search_query_only_def search_body_def Let_def split: option.splits)

lemma search_query_only_shri1_no_matches:
  "encode query = Inr v \<Longrightarrow> index_query v 5 = Inr None \<or> index_query v 5 = Inr (Some []) \<Longrightarrow>
   fst (search_query_only_shri1 encode index_query query threshold w) = Inr None"
  by (auto simp: search_query_only_shri1_def Let_def)

lemma search_query_only_shri1_raises:
  "encode query = Inl e \<or> (encode query = Inr v \<and> index_query v 5 = Inl e) \<Longrightarrow>
   fst (search_query_only_shri1 encode index_query query threshold w) = Inl e"
  by (auto simp: search_query_only_shri1_def Let_def)

lemma chat_shri1_internal_error:
  assumes "get_query req \<noteq> []"
    and "fst (search_query_only_shri1 encode index_query (get_query req) (3 / 4) w) = Inl e"
  shows "fst (chat_shri1 encode index_query requests_post translate req w) =
           jsonify_answer internal_error"
proof -
  obtain r w1 where s: "search_query_only_shri1 encode index_query (get_query req) (3 / 4) w = (r, w1)"
    by (cases "search_query_only_shri1 encode index_query (get_query req) (3 / 4) w")
  with assms(2) have "r = Inl e" by simp
  with s assms(1) show ?thesis by (simp add: chat_shri1_def Let_def)
qed

text \<open>
  C5, as stated, fails on \<open>shri1.py\<close>: there an exception of the encoder leaves
  \<open>search_query_only\<close>.
\<close>

theorem shri1_encoder_failure_propagates:
  "fst (search_query_only_shri1 encode_down (index_of [flu_match]) ''Flu?'' (3 / 4) initial_world)
     = Inl EncoderError \<and>
   fst (search_query_only_shri1 encode_down (index_of [flu_match]) ''Flu?'' (3 / 4) initial_world)
     \<noteq> Inr None"
  by (simp add: search_query_only_shri1_def encode_down_def Let_def)

text \<open>
  C5, amended. \<open>search_query_only\<close> of \<open>server.py\<close> returns None, and raises nothing, when
  the encoder or the index is missing, when either raises, and when the index returns no
  matches. That of \<open>shri1.py\<close> returns None when the index returns no matches; an exception
  of its encoder or index leaves the function and is caught by \<open>chat\<close>, which answers with
  the internal-error message.
\<close>

theorem unavailable_services_give_null:
  "(model = None \<or> index = None \<or>
      (model = Some encode \<and> index = Some index_query \<and>
         (encode query = Inl e \<or>
          (encode query = Inr v \<and>
             (index_query v 5 = Inl e \<or> index_query v 5 = Inr None \<or>
              index_query v 5 = Inr (Some []))))) \<longrightarrow>
      fst (search_query_only model index query threshold w) = None) \<and>
   (encode1 query1 = Inr v1 \<and>
      (index_query1 v1 5 = Inr None \<or> index_query1 v1 5 = Inr (Some [])) \<longrightarrow>
      fst (search_query_only_shri1 encode1 index_query1 query1 threshold1 w1) = Inr None) \<and>
   (get_query req \<noteq> [] \<and>
      (encode2 (get_query req) = Inl e2 \<or>
       (encode2 (get_query req) = Inr v2 \<and> index_query2 v2 5 = Inl e2)) \<longrightarrow>
      fst (search_query_only_shri1 encode2 index_query2 (get_query req) (3 / 4) w2) = Inl e2 \<and>
      fst (chat_shri1 encode2 index_query2 requests_post translate req w2) =
        jsonify_answer internal_error)"
proof (intro conjI impI)
  assume "model = None \<or> index = None \<or>
      (model = Some encode \<and> index = Some index_query \<and>
         (encode query = Inl e \<or>
          (encode query = Inr v \<and>
             (index_query v 5 = Inl e \<or> index_query v 5 = Inr None \<or>
              index_query v 5 = Inr (Some [])))))"
  then show "fst (search_query_only model index query threshold w) = None"
    by (rule search_query_only_unavailable)
next
  assume "encode1 query1 = Inr v1 \<and>
      (index_query1 v1 5 = Inr None \<or> index_query1 v1 5 = Inr (Some []))"
  then show "fst (search_query_only_shri1 encode1 index_query1 query1 threshold1 w1) = Inr None"
    using search_query_only_shri1_no_matches by blast
next
  assume a: "get_query req \<noteq> [] \<and>
      (encode2 (get_query req) = Inl e2 \<or>
       (encode2 (get_query req) = Inr v2 \<and> index_query2 v2 5 = Inl e2))"
  then show r: "fst (search_query_only_shri1 encode2 index_query2 (get_query req) (3 / 4) w2) = Inl e2"
    using search_query_only_shri1_raises by blast
  from a r show "fst (chat_shri1 encode2 index_query2 requests_post translate req w2) =
        jsonify_answer internal_error"
    using chat_shri1_internal_error by blast
qed

theorem unavailable_services_give_null_witness:
  "fst (search_query_only (Some encode_down) (Some (index_of [flu_match])) ''Flu?'' (3 / 4)
          initial_world) = None \<and>
   fst (search_query_only_shri1 encode_ok (index_of []) ''Flu?'' (3 / 4) initial_world) = Inr None \<and>
   get_query \<lparr>session_username = None, req_query = Some ''Flu?'', req_language = None\<rparr> \<noteq> [] \<and>
   fst (chat_shri1 encode_down (index_of [flu_match]) post_500 translate_down
          \<lparr>session_username = None, req_query = Some ''Flu?'', req_language = None\<rparr>
          initial_world) = jsonify_answer internal_error"
proof -
  have q: "get_query \<lparr>session_username = None, req_query = Some ''Flu?'', req_language = None\<rparr> =
             ''Flu?''"
    by (simp add: get_query_def)
  from unavailable_services_give_null
    [where model = "Some encode_down" and index = "Some (index_of [flu_match])"
       and encode = encode_down and index_query = "index_of [flu_match]" and query = "''Flu?''"
       and e = EncoderError and threshold = "3 / 4" and w = initial_world
       and ?encode1.0 = encode_ok and ?query1.0 = "''Flu?''" and ?v1.0 = "[1 / 2]"
       and ?index_query1.0 = "index_of []" and ?threshold1.0 = "3 / 4" and ?w1.0 = initial_world
       and req = "\<lparr>session_username = None, req_query = Some ''Flu?'', req_language = None\<rparr>"
       and ?encode2.0 = encode_down and ?e2.0 = EncoderError
       and ?index_query2.0 = "index_of [flu_match]" and ?w2.0 = initial_world
       and requests_post = post_500 and translate = translate_down]
    q
  show ?thesis
    by (simp add: encode_down_def encode_ok_def index_of_def)
qed

section \<open>Properties of the translation step\<close>

text \<open>
  C7. With the target language \<open>en\<close> the translation step returns the answer unchanged and
  calls nothing, in both files; in \<open>server.py\<close> the same holds for every target language
  when the translator is missing. (In \<open>shri1.py\<close> the translator always exists.)
\<close>

theorem translate_to_english_is_identity:
  "translate_step translator answer ''en'' w = (answer, w) \<and>
   translate_step None answer target_lang w = (answer, w) \<and>
   translate_step_shri1 translate answer ''en'' w = (answer, w)"
  by (simp add: translate_step_def translate_step_shri1_def split: option.splits)

theorem translate_to_english_is_identity_witness:
  "translate_step (Some translate_tag) ''Rest.'' ''en'' initial_world = (''Rest.'', initial_world) \<and>
   translate_step None ''Rest.'' ''hi'' initial_world = (''Rest.'', initial_world) \<and>
   translate_step_shri1 translate_tag ''Rest.'' ''en'' initial_world = (''Rest.'', initial_world)"
  using translate_to_english_is_identity
    [where translator = "Some translate_tag" and answer = "''Rest.''" and w = initial_world
       and target_lang = "''hi''" and translate = translate_tag]
  by simp

lemma contains_translation_failed: "contains translation_failed ''Translation failed''"
  using contains_middle [of "'' '' @ warning_sign @ '' ''" "''Translation failed''" "''.''"]
  by (simp add: translation_failed_def)

lemma contains_translation_failed_shri1:
  "contains translation_failed_shri1 ''Translation failed''"
  using contains_middle [of "''\<newline>\<newline>'' @ warning_sign_shri1 @ '' ''" "''Translation failed''"
      "''. Showing English answer.''"]
  by (simp add: translation_failed_shri1_def)

text \<open>
  C8. When a translation is attempted (the target language is not \<open>en\<close>, and in
  \<open>server.py\<close> it is not empty and the translator exists) and the call raises, the step
  returns the untranslated answer followed by a fixed suffix that says
  \<open>Translation failed\<close>; nothing is raised.
\<close>

theorem failed_translation_appends_warning:
  "(target_lang \<noteq> [] \<and> target_lang \<noteq> ''en'' \<and> translate answer target_lang = Inl e \<longrightarrow>
      translate_step (Some translate) answer target_lang w =
        (answer @ translation_failed, logged (Translate answer target_lang) w)) \<and>
   (target_lang \<noteq> ''en'' \<and> translate answer target_lang = Inl e \<longrightarrow>
      translate_step_shri1 translate answer target_lang w =
        (answer @ translation_failed_shri1, logged (Translate answer target_lang) w)) \<and>
   contains translation_failed ''Translation failed'' \<and>
   contains translation_failed_shri1 ''Translation failed''"
  by (simp add: translate_step_def translate_step_shri1_def Let_def
      contains_translation_failed contains_translation_failed_shri1)

theorem failed_translation_appends_warning_witness:
  "''hi'' \<noteq> [] \<and> ''hi'' \<noteq> ''en'' \<and> translate_down ''Rest.'' ''hi'' = Inl TranslateError \<and>
   fst (translate_step (Some translate_down) ''Rest.'' ''hi'' initial_world) =
     ''Rest.'' @ translation_failed \<and>
   fst (translate_step_shri1 translate_down ''Rest.'' ''hi'' initial_world) =
     ''Rest.'' @ translation_failed_shri1"
  using failed_translation_appends_warning
    [where target_lang = "''hi''" and translate = translate_down and answer = "''Rest.''"
       and e = TranslateError and w = initial_world]
  by (simp add: translate_down_def)

end
